theory Spec2Isabelle
  imports Complex_Main "HOL-Library.Word"
begin

section \<open>JavaScript values\<close>

text \<open>
  A JavaScript string is the list of its UTF-16 code units; \<open>length\<close> is the
  \<^verbatim>\<open>.length\<close> of the source. \<open>str\<close> embeds an ASCII literal. A \<^verbatim>\<open>number\<close> that
  only ever holds a count is a \<open>nat\<close>, one that is divided is a \<open>rat\<close>: the
  quotients of the source (\<^verbatim>\<open>height * maxWidth / width\<close>, \<^verbatim>\<open>length * 3 / 4 / 1024\<close>)
  are taken exactly.
\<close>

type_synonym code_unit = "16 word"
type_synonym jsstring = "code_unit list"

definition str :: "string \<Rightarrow> jsstring" where
  "str = map of_char"

text \<open>An optional field (\<^verbatim>\<open>xml?: string\<close>) is \<open>None\<close> when it is \<^verbatim>\<open>undefined\<close>.
  Truthiness of a string: defined and not empty.\<close>

definition truthy :: "jsstring option \<Rightarrow> bool" where
  "truthy v = (case v of None \<Rightarrow> False | Some s \<Rightarrow> s \<noteq> [])"

text \<open>\<^verbatim>\<open>v || d\<close> for an optional string \<open>v\<close> and a string \<open>d\<close>.\<close>

definition or_else :: "jsstring option \<Rightarrow> jsstring \<Rightarrow> jsstring" where
  "or_else v d = (case v of None \<Rightarrow> d | Some s \<Rightarrow> if s \<noteq> [] then s else d)"

text \<open>\<^verbatim>\<open>xs[i]\<close> on an array: \<^verbatim>\<open>undefined\<close> out of range.\<close>

definition index :: "'a list \<Rightarrow> nat \<Rightarrow> 'a option" where
  "index xs i = (if i < length xs then Some (xs ! i) else None)"

text \<open>\<^verbatim>\<open>s.split(sep)\<close> for a separator of one code unit: a left-to-right scan that
  closes the current piece at each separator. The result always has a last piece,
  also for the empty string.\<close>

fun split_acc :: "'a \<Rightarrow> 'a list \<Rightarrow> 'a list \<Rightarrow> 'a list list" where
  "split_acc sep acc [] = [rev acc]"
| "split_acc sep acc (c # cs) =
     (if c = sep then rev acc # split_acc sep [] cs else split_acc sep (c # acc) cs)"

definition split_js :: "'a \<Rightarrow> 'a list \<Rightarrow> 'a list list" where
  "split_js sep s = split_acc sep [] s"

text \<open>\<^verbatim>\<open>Math.round\<close>: the nearest integer, a tie going up.\<close>

definition Math_round :: "rat \<Rightarrow> int" where
  "Math_round x = \<lfloor>x + 1 / 2\<rfloor>"

text \<open>\<^verbatim>\<open>s.trim()\<close> removes the white space and line terminators of ECMAScript from
  both ends.\<close>

definition isWhiteSpace :: "code_unit \<Rightarrow> bool" where
  "isWhiteSpace c =
     (c \<in> {0x0009, 0x000A, 0x000B, 0x000C, 0x000D, 0x0020, 0x00A0, 0x1680,
            0x2028, 0x2029, 0x202F, 0x205F, 0x3000, 0xFEFF}
      \<or> (0x2000 \<le> c \<and> c \<le> 0x200A))"

definition trim :: "jsstring \<Rightarrow> jsstring" where
  "trim s = rev (dropWhile isWhiteSpace (rev (dropWhile isWhiteSpace s)))"

text \<open>\<^verbatim>\<open>s.includes(sub)\<close> and \<^verbatim>\<open>s.startsWith(p)\<close>.\<close>

fun startsWith :: "'a list \<Rightarrow> 'a list \<Rightarrow> bool" where
  "startsWith s [] = True"
| "startsWith [] (p # ps) = False"
| "startsWith (c # cs) (p # ps) = (c = p \<and> startsWith cs ps)"

fun includes_js :: "'a list \<Rightarrow> 'a list \<Rightarrow> bool" where
  "includes_js [] sub = (sub = [])"
| "includes_js (c # cs) sub = (startsWith (c # cs) sub \<or> includes_js cs sub)"


section \<open>types/api.ts\<close>

datatype ProjectType = FLUTTER | ANGULAR

text \<open>The string value of an enum member, as a template literal prints it.\<close>

fun ProjectType_value :: "ProjectType \<Rightarrow> jsstring" where
  "ProjectType_value FLUTTER = str ''flutter''"
| "ProjectType_value ANGULAR = str ''angular''"

text \<open>\<^verbatim>\<open>MobileApp\<close>. The fields \<^verbatim>\<open>config\<close>, \<^verbatim>\<open>createdAt\<close> and \<^verbatim>\<open>updatedAt\<close> are read by
  no function below and are left out.\<close>

record MobileApp =
  app_id :: jsstring
  app_nombre :: jsstring
  app_xml :: "jsstring option"
  app_prompt :: "jsstring option"
  app_mockup_id :: "jsstring option"
  app_project_type :: ProjectType
  app_user_id :: jsstring


section \<open>pages/MobileAppsPage.tsx: the creation-method classifier\<close>

datatype lucide = Bot | Globe | Smartphone | Plus

record CreationMethod =
  cm_icon :: "lucide \<times> jsstring"
  cm_text :: jsstring
  cm_color :: jsstring

definition getCreationMethod :: "MobileApp \<Rightarrow> CreationMethod" where
  "getCreationMethod app =
     (if truthy (app_prompt app) \<and> \<not> truthy (app_xml app) \<and> \<not> truthy (app_mockup_id app)
      then \<lparr>cm_icon = (Bot, str ''w-4 h-4 text-orange-500''), cm_text = str ''IA'',
            cm_color = str ''text-orange-600''\<rparr>
      else if truthy (app_xml app)
      then \<lparr>cm_icon = (Globe, str ''w-4 h-4 text-blue-500''), cm_text = str ''XML'',
            cm_color = str ''text-blue-600''\<rparr>
      else if truthy (app_mockup_id app)
      then \<lparr>cm_icon = (Smartphone, str ''w-4 h-4 text-green-500''), cm_text = str ''Mockup'',
            cm_color = str ''text-green-600''\<rparr>
      else \<lparr>cm_icon = (Plus, str ''w-4 h-4 text-gray-500''), cm_text = str ''Manual'',
            cm_color = str ''text-gray-600''\<rparr>)"


section \<open>services/imageAnalysisService.ts: validation, compression, inspection\<close>

text \<open>A \<^verbatim>\<open>File\<close>: its name, declared media type and size in bytes. Its content is seen
  only through the browser's decoder.\<close>

record File =
  file_name :: jsstring
  file_type :: jsstring
  file_size :: nat

record Validation =
  valid :: bool
  v_error :: "jsstring option"

definition validTypes :: "jsstring list" where
  "validTypes = [str ''image/jpeg'', str ''image/jpg'', str ''image/png'',
                 str ''image/gif'', str ''image/webp'']"

definition maxSize :: nat where
  "maxSize = 20 * 1024 * 1024"

text \<open>The two messages hold a-acute, code unit \<open>0xE1\<close>.\<close>

definition msg_invalid_type :: jsstring where
  "msg_invalid_type =
     str ''Tipo de archivo no v'' @ [0xE1] @ str ''lido. Use JPEG, PNG, GIF o WebP.''"

definition msg_too_large :: jsstring where
  "msg_too_large =
     str ''El archivo es demasiado grande. M'' @ [0xE1] @ str ''ximo 20MB.''"

definition validateImageFile :: "File \<Rightarrow> Validation" where
  "validateImageFile file =
     (if \<not> (file_type file \<in> set validTypes)
      then \<lparr>valid = False, v_error = Some msg_invalid_type\<rparr>
      else if file_size file > maxSize
      then \<lparr>valid = False, v_error = Some msg_too_large\<rparr>
      else \<lparr>valid = True, v_error = None\<rparr>)"

text \<open>
  \<^verbatim>\<open>compressImage\<close>, the \<^verbatim>\<open>onload\<close> handler up to the two canvas assignments. The
  decoded image has whole-pixel dimensions; \<^verbatim>\<open>width\<close> and \<^verbatim>\<open>height\<close> are numbers.
\<close>

record Image =
  img_width :: nat
  img_height :: nat

definition scaled :: "rat \<Rightarrow> Image \<Rightarrow> rat \<times> rat" where
  "scaled maxWidth img =
     (let width = of_nat (img_width img); height = of_nat (img_height img)
      in if width > maxWidth then (maxWidth, (height * maxWidth) / width)
         else (width, height))"

text \<open>
  Assigning a number to \<^verbatim>\<open>canvas.width\<close> or \<^verbatim>\<open>canvas.height\<close>, an \<^verbatim>\<open>unsigned long\<close>
  of the DOM: the number loses its fraction towards zero and is taken modulo \<open>2^32\<close>; a
  result above \<open>2^31 - 1\<close> is replaced by the attribute's default, 300 for the width and
  150 for the height.
\<close>

definition toUnsignedLong :: "rat \<Rightarrow> nat" where
  "toUnsignedLong x = nat ((if 0 \<le> x then \<lfloor>x\<rfloor> else \<lceil>x\<rceil>) mod 2 ^ 32)"

definition canvas_dimension :: "nat \<Rightarrow> rat \<Rightarrow> nat" where
  "canvas_dimension fallback x =
     (let n = toUnsignedLong x in if n > 2147483647 then fallback else n)"

definition canvas_size :: "rat \<Rightarrow> Image \<Rightarrow> nat \<times> nat" where
  "canvas_size maxWidth img =
     (case scaled maxWidth img of (width, height) \<Rightarrow>
        (canvas_dimension 300 width, canvas_dimension 150 height))"


text \<open>\<^verbatim>\<open>getImageInfo\<close>. \<open>None\<close> stands for the TypeError of calling \<^verbatim>\<open>split\<close> on
  \<^verbatim>\<open>undefined\<close>, which the first index could raise if \<^verbatim>\<open>split\<close> returned an empty
  array.\<close>

record ImageInfo =
  sizeKB :: int
  format :: jsstring

definition semicolon :: code_unit where "semicolon = 0x3B"
definition slash :: code_unit where "slash = 0x2F"

definition getImageInfo :: "jsstring \<Rightarrow> ImageInfo option" where
  "getImageInfo base64Image =
     (let base64Length = length base64Image;
          sizeBytes = (of_nat base64Length * 3) / 4;
          sizeKB = Math_round (sizeBytes / 1024)
      in case index (split_js semicolon base64Image) 0 of
           None \<Rightarrow> None
         | Some head \<Rightarrow>
             Some \<lparr>sizeKB = sizeKB,
                   format = or_else (index (split_js slash head) 1) (str ''unknown'')\<rparr>)"


section \<open>Thrown values, the browser and the two HTTP clients\<close>

text \<open>
  A thrown value is an \<^verbatim>\<open>Error\<close> with its message and, for an axios error that carries a
  response, the status of that response (\<^verbatim>\<open>error.response?.status\<close>); or it is no
  \<^verbatim>\<open>Error\<close> at all (the event a \<^verbatim>\<open>FileReader\<close> rejects with).
\<close>

datatype exn = Error (message: jsstring) (response_status: "nat option") | NonError

text \<open>\<^verbatim>\<open>e instanceof Error ? e.message : d\<close>\<close>

definition catch_message :: "exn \<Rightarrow> jsstring \<Rightarrow> jsstring" where
  "catch_message e d = (case e of Error m _ \<Rightarrow> m | NonError \<Rightarrow> d)"

text \<open>A status code in a template literal: its decimal digits.\<close>

function toString :: "nat \<Rightarrow> jsstring" where
  "toString n =
     (if n < 10 then [of_nat (48 + n)]
      else toString (n div 10) @ [of_nat (48 + n mod 10)])"
  by pat_completeness auto
termination
  by (relation "measure id") auto

record Blob =
  blob_type :: jsstring
  blob_bytes :: "8 word list"

text \<open>
  The browser as the code uses it: decoding a file into an image (\<open>None\<close> is
  \<^verbatim>\<open>img.onerror\<close>), the JPEG encoder behind \<^verbatim>\<open>toDataURL\<close> for a canvas that has pixels,
  drawn from a file at a size and encoded at a quality (the result is an image of that
  size), reading a file as a data URL (\<open>None\<close> is \<^verbatim>\<open>reader.onerror\<close>), and making an
  object URL.
\<close>

record Browser =
  decode :: "File \<Rightarrow> Image option"
  toDataURL :: "File \<Rightarrow> nat \<times> nat \<Rightarrow> rat \<Rightarrow> jsstring"
  readAsDataURL :: "File \<Rightarrow> jsstring option"
  createObjectURL :: "Blob \<Rightarrow> jsstring"

text \<open>\<^verbatim>\<open>canvas.toDataURL\<close>: a canvas whose width or height is zero has no pixels and
  gives the string \<^verbatim>\<open>data:,\<close>; any other canvas goes through the encoder.\<close>

definition canvas_toDataURL :: "Browser \<Rightarrow> File \<Rightarrow> nat \<times> nat \<Rightarrow> rat \<Rightarrow> jsstring" where
  "canvas_toDataURL browser file dims quality =
     (if fst dims = 0 \<or> snd dims = 0 then str ''data:,''
      else toDataURL browser file dims quality)"

text \<open>The message holds o-acute, code unit \<open>0xF3\<close>.\<close>

definition msg_load_failed :: jsstring where
  "msg_load_failed = str ''Error cargando imagen para compresi'' @ [0xF3] @ str ''n''"

definition compressImage :: "Browser \<Rightarrow> File \<Rightarrow> rat \<Rightarrow> rat \<Rightarrow> exn + jsstring" where
  "compressImage browser file maxWidth quality =
     (case decode browser file of
        None \<Rightarrow> Inl (Error msg_load_failed None)
      | Some img \<Rightarrow> Inr (canvas_toDataURL browser file (canvas_size maxWidth img) quality))"

definition fileToBase64 :: "Browser \<Rightarrow> File \<Rightarrow> bool \<Rightarrow> exn + jsstring" where
  "fileToBase64 browser file compress =
     (if compress \<and> startsWith (file_type file) (str ''image/'')
      then compressImage browser file 1024 (8 / 10)
      else (case readAsDataURL browser file of
              None \<Rightarrow> Inl NonError
            | Some dataUrl \<Rightarrow> Inr dataUrl))"

text \<open>
  A response of \<^verbatim>\<open>fetch\<close>: the status, the content-type header, the body as
  \<^verbatim>\<open>response.json()\<close> gives it (or what that throws) and as \<^verbatim>\<open>response.blob()\<close> gives it.
  \<^verbatim>\<open>response.ok\<close> is a status from 200 to 299.
\<close>

record 'j Response =
  status :: nat
  content_type :: "jsstring option"
  json :: "exn + 'j"
  body_blob :: Blob

definition ok :: "'j Response \<Rightarrow> bool" where
  "ok response = (200 \<le> status response \<and> status response \<le> 299)"

record ImageAnalysisResponse =
  ia_success :: bool
  ia_description :: "jsstring option"
  ia_error :: "jsstring option"

record ProjectGenerationRequest =
  pr_description :: jsstring
  pr_projectType :: ProjectType
  pr_nombre :: "jsstring option"

record ProjectGenerationResponse =
  pg_success :: bool
  pg_downloadUrl :: "jsstring option"
  pg_error :: "jsstring option"

text \<open>The body posted to \<^verbatim>\<open>/mobile-generator/from-prompt\<close> (the axios client adds
  \<^verbatim>\<open>config\<close>, which no page sets), what the fetch client reads of the created record,
  and what it reads of a JSON reply to \<^verbatim>\<open>generate\<close>.\<close>

record FromPromptBody =
  fp_prompt :: jsstring
  fp_nombre :: "jsstring option"
  fp_project_type :: ProjectType

record CreatedApp =
  created_id :: jsstring

record GenerateReply =
  reply_message :: "jsstring option"

datatype Request =
    AnalyzeImage jsstring ProjectType
  | FromPrompt FromPromptBody
  | Generate jsstring

text \<open>
  The backend behind \<^verbatim>\<open>fetch\<close>: for each request either the exception \<^verbatim>\<open>fetch\<close> rejects
  with or the response. Each service function returns its result together with the
  requests it sent, in order. The bearer token and the base URL are not modelled.
\<close>

record Backend =
  analyze_image :: "jsstring \<Rightarrow> ProjectType \<Rightarrow> exn + ImageAnalysisResponse Response"
  from_prompt :: "FromPromptBody \<Rightarrow> exn + CreatedApp Response"
  generate :: "jsstring \<Rightarrow> exn + GenerateReply Response"

definition analysis_failed :: "exn \<Rightarrow> ImageAnalysisResponse" where
  "analysis_failed e =
     \<lparr>ia_success = False, ia_description = None,
      ia_error = Some (catch_message e (str ''Error desconocido''))\<rparr>"

definition analyzeImageForProject ::
  "Backend \<Rightarrow> jsstring \<Rightarrow> ProjectType \<Rightarrow> ImageAnalysisResponse \<times> Request list" where
  "analyzeImageForProject backend base64Image projectType =
     ((case analyze_image backend base64Image projectType of
         Inl e \<Rightarrow> analysis_failed e
       | Inr response \<Rightarrow>
           if \<not> ok response
           then analysis_failed
                  (Error (str ''Error del servidor: '' @ toString (status response)) None)
           else (case json response of
                   Inl e \<Rightarrow> analysis_failed e
                 | Inr result \<Rightarrow>
                     \<lparr>ia_success = ia_success result,
                      ia_description = ia_description result,
                      ia_error = ia_error result\<rparr>)),
      [AnalyzeImage base64Image projectType])"

definition generation_failed :: "exn \<Rightarrow> ProjectGenerationResponse" where
  "generation_failed e =
     \<lparr>pg_success = False, pg_downloadUrl = None,
      pg_error = Some (catch_message e (str ''Error desconocido''))\<rparr>"

text \<open>\<^verbatim>\<open>headers.get('content-type')?.includes('application/zip')\<close>\<close>

definition is_zip :: "'j Response \<Rightarrow> bool" where
  "is_zip response =
     (case content_type response of
        None \<Rightarrow> False
      | Some ct \<Rightarrow> includes_js ct (str ''application/zip''))"

text \<open>
  \<^verbatim>\<open>generateProjectFromDescription\<close> in its two halves, each ending in the value it
  hands on or in what it throws into the function's \<^verbatim>\<open>catch\<close>: creating the app record,
  and generating the project of the created record.
\<close>

definition create_step :: "Backend \<Rightarrow> FromPromptBody \<Rightarrow> exn + CreatedApp" where
  "create_step backend body =
     (case from_prompt backend body of
        Inl e \<Rightarrow> Inl e
      | Inr createResponse \<Rightarrow>
          if \<not> ok createResponse
          then Inl (Error (str ''Error creando aplicaci'' @ [0xF3] @ str ''n: ''
                             @ toString (status createResponse)) None)
          else json createResponse)"

definition generate_step :: "Backend \<Rightarrow> Browser \<Rightarrow> jsstring \<Rightarrow> ProjectGenerationResponse" where
  "generate_step backend browser ident =
     (case generate backend ident of
        Inl e \<Rightarrow> generation_failed e
      | Inr generateResponse \<Rightarrow>
          if \<not> ok generateResponse
          then generation_failed
                 (Error (str ''Error generando proyecto: ''
                           @ toString (status generateResponse)) None)
          else if is_zip generateResponse
          then \<lparr>pg_success = True,
                pg_downloadUrl = Some (createObjectURL browser (body_blob generateResponse)),
                pg_error = None\<rparr>
          else (case json generateResponse of
                  Inl e \<Rightarrow> generation_failed e
                | Inr result \<Rightarrow>
                    \<lparr>pg_success = False, pg_downloadUrl = None,
                     pg_error = Some (or_else (reply_message result)
                                        (str ''Error generando proyecto''))\<rparr>))"

definition generateProjectFromDescription ::
  "Backend \<Rightarrow> Browser \<Rightarrow> ProjectGenerationRequest
     \<Rightarrow> ProjectGenerationResponse \<times> Request list" where
  "generateProjectFromDescription backend browser request =
     (let body = \<lparr>fp_prompt = pr_description request, fp_nombre = pr_nombre request,
                  fp_project_type = pr_projectType request\<rparr>
      in case create_step backend body of
           Inl e \<Rightarrow> (generation_failed e, [FromPrompt body])
         | Inr createdApp \<Rightarrow>
             (generate_step backend browser (created_id createdApp),
              [FromPrompt body, Generate (created_id createdApp)]))"

text \<open>
  \<^verbatim>\<open>analyzeImageAndGenerateProject\<close>. The two functions it calls catch everything
  themselves, so its own \<^verbatim>\<open>catch\<close> is never entered. The description is read only
  where the guard has found it defined and non-empty.
\<close>

definition analyzeImageAndGenerateProject ::
  "Backend \<Rightarrow> Browser \<Rightarrow> jsstring \<Rightarrow> ProjectType \<Rightarrow> jsstring option
     \<Rightarrow> ProjectGenerationResponse \<times> Request list" where
  "analyzeImageAndGenerateProject backend browser base64Image projectType projectName =
     (case analyzeImageForProject backend base64Image projectType of
        (analysisResult, sent) \<Rightarrow>
          (case ia_description analysisResult of
             Some description \<Rightarrow>
               if \<not> ia_success analysisResult \<or> description = []
               then (\<lparr>pg_success = False, pg_downloadUrl = None,
                      pg_error = Some (or_else (ia_error analysisResult)
                                         (str ''Error analizando imagen''))\<rparr>, sent)
               else (case generateProjectFromDescription backend browser
                            \<lparr>pr_description = description, pr_projectType = projectType,
                             pr_nombre = projectName\<rparr> of
                       (generationResult, sent') \<Rightarrow> (generationResult, sent @ sent'))
           | None \<Rightarrow>
               (\<lparr>pg_success = False, pg_downloadUrl = None,
                 pg_error = Some (or_else (ia_error analysisResult)
                                    (str ''Error analizando imagen''))\<rparr>, sent)))"


section \<open>services/apiService.ts: the axios client\<close>

text \<open>
  What the server sends back for a request made through axios: nothing (a network
  failure) or a status with the response data. With its default \<^verbatim>\<open>validateStatus\<close>,
  axios resolves a status from 200 to 299 and rejects every other with an error that
  carries the response. With \<^verbatim>\<open>responseType: 'blob'\<close> the data is a blob whose type is the
  response's content type. The interceptor's redirect on a 401 is outside the pages'
  state and is not modelled; the rejection it passes on is.
\<close>

datatype 'a HttpReply = NoReply | Reply nat 'a

definition axios_post :: "'a HttpReply \<Rightarrow> exn + 'a" where
  "axios_post reply =
     (case reply of
        NoReply \<Rightarrow> Inl (Error (str ''Network Error'') None)
      | Reply code data \<Rightarrow>
          if 200 \<le> code \<and> code < 300 then Inr data
          else Inl (Error (str ''Request failed with status code '' @ toString code)
                      (Some code)))"

record CreateFromPromptRequest =
  cfp_prompt :: jsstring
  cfp_nombre :: "jsstring option"
  cfp_project_type :: "ProjectType option"

record CreateFromPromptResponse =
  r_id :: jsstring
  r_nombre :: jsstring
  r_prompt :: jsstring
  r_project_type :: ProjectType
  r_user_id :: jsstring

text \<open>\<open>currentUser\<close> is the id of \<^verbatim>\<open>authApi.getCurrentUser()\<close>, \<open>None\<close> when there is no
  stored user or the user has no id.\<close>

record Api =
  currentUser :: "jsstring option"
  post_from_prompt :: "FromPromptBody \<Rightarrow> CreateFromPromptResponse HttpReply"
  post_generate :: "jsstring \<Rightarrow> Blob HttpReply"

definition createFromPrompt ::
  "Api \<Rightarrow> CreateFromPromptRequest \<Rightarrow> (exn + CreateFromPromptResponse) \<times> Request list" where
  "createFromPrompt api request =
     (case currentUser api of
        None \<Rightarrow>
          (Inl (Error (str ''User not authenticated or user ID not available'') None), [])
      | Some user_id \<Rightarrow>
          (let requestData =
                 \<lparr>fp_prompt = cfp_prompt request, fp_nombre = cfp_nombre request,
                  fp_project_type =
                    (case cfp_project_type request of None \<Rightarrow> FLUTTER | Some t \<Rightarrow> t)\<rparr>
           in (axios_post (post_from_prompt api requestData), [FromPrompt requestData])))"

definition generateProject :: "Api \<Rightarrow> jsstring \<Rightarrow> (exn + Blob) \<times> Request list" where
  "generateProject api ident = (axios_post (post_generate api ident), [Generate ident])"


section \<open>What a handler does besides setting state\<close>

text \<open>A download is the anchor the handler clicks: its \<^verbatim>\<open>href\<close> and its \<^verbatim>\<open>download\<close>
  attribute, the file name.\<close>

record Download =
  href :: jsstring
  download :: jsstring

record Effects =
  requests :: "Request list"
  downloads :: "Download list"
  revoked :: "jsstring list"

definition no_effects :: Effects where
  "no_effects = \<lparr>requests = [], downloads = [], revoked = []\<rparr>"

definition sent_only :: "Request list \<Rightarrow> Effects" where
  "sent_only sent = \<lparr>requests = sent, downloads = [], revoked = []\<rparr>"


section \<open>pages/MobileAppFromImagePage.tsx\<close>

record FormData =
  projectName :: jsstring
  projectType :: ProjectType
  imageFile :: "File option"

text \<open>The state of the screen: the hooks of the component, and the value of the file
  input the ref points to.\<close>

record ImagePage =
  formData :: FormData
  isAnalyzing :: bool
  isGenerating :: bool
  analysisResult :: jsstring
  error :: jsstring
  success :: jsstring
  imagePreview :: jsstring
  imageInfo :: "ImageInfo option"
  isCompressing :: bool
  fileInput_value :: jsstring

definition msg_select_image :: jsstring where
  "msg_select_image = str ''Por favor selecciona una imagen''"

definition msg_enter_name :: jsstring where
  "msg_enter_name = str ''Por favor ingresa un nombre para el proyecto''"

text \<open>The message starts with an inverted exclamation mark, \<open>0xA1\<close>, and holds o-acute.\<close>

definition msg_analyzed :: jsstring where
  "msg_analyzed =
     [0xA1] @ str ''Imagen analizada correctamente! Revisa la descripci'' @ [0xF3]
       @ str ''n y genera el proyecto.''"

definition msg_generated :: "ProjectType \<Rightarrow> jsstring" where
  "msg_generated t =
     [0xA1] @ str ''Proyecto '' @ ProjectType_value t
       @ str '' generado y descargado correctamente!''"

text \<open>
  Each handler is written in two parts: the state it has set when it reaches its first
  \<^verbatim>\<open>await\<close> (the step is then in flight) and the whole run to its \<^verbatim>\<open>finally\<close>. A whole run
  is taken without another event in between. The dynamic \<^verbatim>\<open>import\<close> of the service module in
  \<^verbatim>\<open>handleAnalyzeImage\<close> is taken to succeed.
\<close>

definition handleAnalyzeImage_begin :: "ImagePage \<Rightarrow> ImagePage" where
  "handleAnalyzeImage_begin st = st\<lparr>isAnalyzing := True, error := [], analysisResult := []\<rparr>"

definition handleAnalyzeImage ::
  "Browser \<Rightarrow> Backend \<Rightarrow> ImagePage \<Rightarrow> ImagePage \<times> Request list" where
  "handleAnalyzeImage browser backend st =
     (case imageFile (formData st) of
        None \<Rightarrow> (st\<lparr>error := msg_select_image\<rparr>, [])
      | Some file \<Rightarrow>
          (let st1 = handleAnalyzeImage_begin st
           in case fileToBase64 browser file True of
                Inl err \<Rightarrow>
                  (st1\<lparr>error := catch_message err (str ''Error analizando imagen''),
                       isAnalyzing := False\<rparr>, [])
              | Inr base64Image \<Rightarrow>
                  (case analyzeImageForProject backend base64Image (projectType (formData st)) of
                     (result, sent) \<Rightarrow>
                       (case ia_description result of
                          Some description \<Rightarrow>
                            if ia_success result \<and> description \<noteq> []
                            then (st1\<lparr>analysisResult := description, success := msg_analyzed,
                                       isAnalyzing := False\<rparr>, sent)
                            else (st1\<lparr>error := or_else (ia_error result)
                                                   (str ''Error analizando imagen''),
                                       isAnalyzing := False\<rparr>, sent)
                        | None \<Rightarrow>
                            (st1\<lparr>error := or_else (ia_error result)
                                              (str ''Error analizando imagen''),
                                  isAnalyzing := False\<rparr>, sent)))))"

definition handleGenerateProject_begin :: "ImagePage \<Rightarrow> ImagePage" where
  "handleGenerateProject_begin st = st\<lparr>isGenerating := True, error := [], success := []\<rparr>"

definition handleGenerateProject ::
  "Browser \<Rightarrow> Backend \<Rightarrow> ImagePage \<Rightarrow> ImagePage \<times> Effects" where
  "handleGenerateProject browser backend st =
     (case imageFile (formData st) of
        None \<Rightarrow> (st\<lparr>error := msg_select_image\<rparr>, no_effects)
      | Some file \<Rightarrow>
          if trim (projectName (formData st)) = []
          then (st\<lparr>error := msg_enter_name\<rparr>, no_effects)
          else
            (let st1 = handleGenerateProject_begin st
             in case fileToBase64 browser file True of
                  Inl err \<Rightarrow>
                    (st1\<lparr>error := catch_message err (str ''Error generando proyecto''),
                         isGenerating := False\<rparr>, no_effects)
                | Inr base64Image \<Rightarrow>
                    (case analyzeImageAndGenerateProject backend browser base64Image
                            (projectType (formData st)) (Some (projectName (formData st))) of
                       (result, sent) \<Rightarrow>
                         (case pg_downloadUrl result of
                            Some downloadUrl \<Rightarrow>
                              if pg_success result \<and> downloadUrl \<noteq> []
                              then
                                (st1\<lparr>success := msg_generated (projectType (formData st)),
                                     formData := \<lparr>projectName = [], projectType = FLUTTER,
                                                   imageFile = None\<rparr>,
                                     imagePreview := [], imageInfo := None,
                                     analysisResult := [], fileInput_value := [],
                                     isGenerating := False\<rparr>,
                                 \<lparr>requests = sent,
                                  downloads =
                                    [\<lparr>href = downloadUrl,
                                      download =
                                        projectName (formData st) @ str ''-''
                                          @ ProjectType_value (projectType (formData st))
                                          @ str ''.zip''\<rparr>],
                                  revoked = [downloadUrl]\<rparr>)
                              else (st1\<lparr>error := or_else (pg_error result)
                                                     (str ''Error generando proyecto''),
                                         isGenerating := False\<rparr>, sent_only sent)
                          | None \<Rightarrow>
                              (st1\<lparr>error := or_else (pg_error result)
                                                (str ''Error generando proyecto''),
                                    isGenerating := False\<rparr>, sent_only sent)))))"






section \<open>pages/MobileAppFromPromptPage.tsx\<close>

record PromptPage =
  p_loading :: bool
  p_error :: "jsstring option"
  p_success :: bool
  p_formData :: CreateFromPromptRequest

definition msg_prompt_required :: jsstring where
  "msg_prompt_required =
     str ''La descripci'' @ [0xF3] @ str ''n de la aplicaci'' @ [0xF3] @ str ''n es requerida''"

definition msg_prompt_short :: jsstring where
  "msg_prompt_short =
     str ''La descripci'' @ [0xF3] @ str ''n debe tener al menos 10 caracteres''"

text \<open>The message the \<^verbatim>\<open>catch\<close> chooses from \<^verbatim>\<open>error.response?.status\<close>; the second
  and third hold a-acute, o-acute.\<close>

definition classify :: "exn \<Rightarrow> jsstring" where
  "classify e =
     (let code = (case e of Error _ s \<Rightarrow> s | NonError \<Rightarrow> None)
      in if code = Some 400
         then str ''Verifica que la descripci'' @ [0xF3] @ str ''n sea v'' @ [0xE1] @ str ''lida''
         else if code = Some 500
         then str ''Error interno del servidor. Intenta m'' @ [0xE1] @ str ''s tarde.''
         else str ''Error creando la aplicaci'' @ [0xF3]
                @ str ''n. Intenta con una descripci'' @ [0xF3] @ str ''n m'' @ [0xE1]
                @ str ''s espec'' @ [0xED] @ str ''fica.'')"

definition handleSubmit_begin :: "PromptPage \<Rightarrow> PromptPage" where
  "handleSubmit_begin st = st\<lparr>p_loading := True, p_error := None\<rparr>"

text \<open>\<^verbatim>\<open>handleSubmit\<close>. The navigation it schedules three seconds after a success is not
  modelled.\<close>

definition handleSubmit :: "Api \<Rightarrow> Browser \<Rightarrow> PromptPage \<Rightarrow> PromptPage \<times> Effects" where
  "handleSubmit api browser st =
     (if trim (cfp_prompt (p_formData st)) = []
      then (st\<lparr>p_error := Some msg_prompt_required\<rparr>, no_effects)
      else if length (cfp_prompt (p_formData st)) < 10
      then (st\<lparr>p_error := Some msg_prompt_short\<rparr>, no_effects)
      else
        (let st1 = handleSubmit_begin st
         in case createFromPrompt api (p_formData st) of
              (Inl e, sent) \<Rightarrow>
                (st1\<lparr>p_error := Some (classify e), p_loading := False\<rparr>, sent_only sent)
            | (Inr app, sent) \<Rightarrow>
                (case generateProject api (r_id app) of
                   (Inl e, sent') \<Rightarrow>
                     (st1\<lparr>p_error := Some (classify e), p_loading := False\<rparr>,
                      sent_only (sent @ sent'))
                 | (Inr blob, sent') \<Rightarrow>
                     (let url = createObjectURL browser blob
                      in (st1\<lparr>p_success := True, p_loading := False\<rparr>,
                          \<lparr>requests = sent @ sent',
                           downloads =
                             [\<lparr>href = url,
                               download =
                                 or_else (Some (r_nombre app)) (str ''mobile-app'') @ str ''-''
                                   @ ProjectType_value (r_project_type app) @ str ''.zip''\<rparr>],
                           revoked = [url]\<rparr>)))))"



section \<open>pages/MobileAppsPage.tsx: generating from the list\<close>




section \<open>Scenarios\<close>

text \<open>Concrete browsers, servers and screens on which the handlers are run below.\<close>

definition example_file :: File where
  "example_file =
     \<lparr>file_name = str ''mockup.png'', file_type = str ''image/png'', file_size = 123456\<rparr>"

definition example_blob :: Blob where
  "example_blob = \<lparr>blob_type = str ''application/zip'', blob_bytes = [0x50, 0x4B, 0x03, 0x04]\<rparr>"

text \<open>The bytes of \<^verbatim>\<open>{"message":"fail"}\<close>.\<close>

definition error_body :: Blob where
  "error_body =
     \<lparr>blob_type = str ''application/json'',
      blob_bytes = [0x7B, 0x22, 0x6D, 0x65, 0x73, 0x73, 0x61, 0x67, 0x65, 0x22, 0x3A,
                    0x22, 0x66, 0x61, 0x69, 0x6C, 0x22, 0x7D]\<rparr>"

definition example_browser :: Browser where
  "example_browser =
     \<lparr>decode = (\<lambda>file. Some \<lparr>img_width = 5000, img_height = 3000\<rparr>),
      toDataURL = (\<lambda>file size quality. str ''data:image/jpeg;base64,/9j/4AAQ''),
      readAsDataURL = (\<lambda>file. Some (str ''data:image/png;base64,iVBORw0K'')),
      createObjectURL = (\<lambda>b. str ''blob:http://localhost/'' @ blob_type b)\<rparr>"



text \<open>A server whose image analysis reports a failure with the message \<open>X\<close>.\<close>

definition failing_analysis :: "jsstring \<Rightarrow> Backend" where
  "failing_analysis X =
     \<lparr>analyze_image =
        (\<lambda>encoded t. Inr \<lparr>status = 200, content_type = Some (str ''application/json''),
                          json = Inr \<lparr>ia_success = False, ia_description = None,
                                      ia_error = Some X\<rparr>,
                          body_blob = \<lparr>blob_type = str ''application/json'',
                                       blob_bytes = []\<rparr>\<rparr>),
      from_prompt = (\<lambda>body. Inl (Error (str ''Failed to fetch'') None)),
      generate = (\<lambda>ident. Inl (Error (str ''Failed to fetch'') None))\<rparr>"

text \<open>A server on which every step succeeds.\<close>

definition example_backend :: Backend where
  "example_backend =
     \<lparr>analyze_image =
        (\<lambda>encoded t. Inr \<lparr>status = 200, content_type = Some (str ''application/json''),
                          json = Inr \<lparr>ia_success = True,
                                      ia_description = Some (str ''A login screen''),
                                      ia_error = None\<rparr>,
                          body_blob = \<lparr>blob_type = str ''application/json'',
                                       blob_bytes = []\<rparr>\<rparr>),
      from_prompt =
        (\<lambda>body. Inr \<lparr>status = 201, content_type = Some (str ''application/json''),
                       json = Inr \<lparr>created_id = str ''42''\<rparr>,
                       body_blob = \<lparr>blob_type = str ''application/json'',
                                    blob_bytes = []\<rparr>\<rparr>),
      generate =
        (\<lambda>ident. Inr \<lparr>status = 200, content_type = Some (str ''application/zip''),
                        json = Inl (Error (str ''Unexpected token'') None),
                        body_blob = example_blob\<rparr>)\<rparr>"

text \<open>Servers on which the creation, or the generation, fails after a good analysis.\<close>

definition failing_creation :: Backend where
  "failing_creation =
     example_backend\<lparr>from_prompt := (\<lambda>body. Inl (Error (str ''Failed to fetch'') None))\<rparr>"

definition failing_generation :: Backend where
  "failing_generation =
     example_backend
       \<lparr>generate :=
          (\<lambda>ident. Inr \<lparr>status = 200, content_type = Some (str ''application/json''),
                          json = Inr \<lparr>reply_message = Some (str ''fail'')\<rparr>,
                          body_blob = error_body\<rparr>)\<rparr>"

definition example_image_page :: ImagePage where
  "example_image_page =
     \<lparr>formData = \<lparr>projectName = str ''demo'', projectType = FLUTTER,
                   imageFile = Some example_file\<rparr>,
      isAnalyzing = False, isGenerating = False, analysisResult = [], error = [],
      success = [], imagePreview = str ''data:image/jpeg;base64,/9j/4AAQ'',
      imageInfo = Some \<lparr>sizeKB = 0, format = str ''jpeg''\<rparr>,
      isCompressing = False, fileInput_value = str ''mockup.png''\<rparr>"

text \<open>The server behind axios: it names the app itself and answers \<^verbatim>\<open>generate\<close> with
  the given reply.\<close>

definition example_api :: "Blob HttpReply \<Rightarrow> Api" where
  "example_api generated =
     \<lparr>currentUser = Some (str ''u1''),
      post_from_prompt =
        (\<lambda>body. Reply 201 \<lparr>r_id = str ''42'', r_nombre = str ''GymApp'',
                            r_prompt = fp_prompt body,
                            r_project_type = fp_project_type body,
                            r_user_id = str ''u1''\<rparr>),
      post_generate = (\<lambda>ident. generated)\<rparr>"

definition example_prompt_page :: "jsstring \<Rightarrow> PromptPage" where
  "example_prompt_page text =
     \<lparr>p_loading = False, p_error = None, p_success = False,
      p_formData = \<lparr>cfp_prompt = text, cfp_nombre = Some [],
                     cfp_project_type = Some FLUTTER\<rparr>\<rparr>"


section \<open>Facts about strings\<close>

lemma unat_of_char16: "unat (of_char c :: code_unit) = of_char c"
proof -
  have "(of_char c :: nat) < 2 ^ 16"
    by (rule less_trans [OF nat_of_char_less_256]) simp
  moreover have "(of_char c :: code_unit) = of_nat (of_char c)"
    by (simp add: of_nat_of_char)
  ultimately show ?thesis
    by (simp add: unat_of_nat take_bit_nat_eq_self)
qed

lemma of_char16_eq_iff: "(of_char a :: code_unit) = of_char b \<longleftrightarrow> a = b"
proof
  assume "(of_char a :: code_unit) = of_char b"
  then have "unat (of_char a :: code_unit) = unat (of_char b :: code_unit)"
    by simp
  then have "(of_char a :: nat) = of_char b"
    by (simp only: unat_of_char16)
  then have "char_of (of_char a :: nat) = char_of (of_char b :: nat)"
    by simp
  then show "a = b"
    by simp
qed simp

lemma str_eq_iff: "str a = str b \<longleftrightarrow> a = b"
proof -
  have "inj (of_char :: char \<Rightarrow> code_unit)"
    by (rule injI) (simp add: of_char16_eq_iff)
  then show ?thesis
    by (simp add: str_def inj_map_eq_map)
qed

lemma str_Nil_iff: "str a = [] \<longleftrightarrow> a = []"
  by (simp add: str_def)

lemma length_str: "length (str a) = length a"
  by (simp add: str_def)

lemma split_acc_no_sep:
  "sep \<notin> set p \<Longrightarrow> split_acc sep acc p = [rev acc @ p]"
  by (induction p arbitrary: acc) auto

lemma split_acc_first:
  "sep \<notin> set p \<Longrightarrow>
   split_acc sep acc (p @ sep # rest) = (rev acc @ p) # split_acc sep [] rest"
  by (induction p arbitrary: acc) auto

lemma split_acc_not_Nil: "split_acc sep acc s \<noteq> []"
  by (induction s arbitrary: acc) auto

lemma split_js_first:
  "sep \<notin> set p \<Longrightarrow> split_js sep (p @ sep # rest) = p # split_js sep rest"
  by (simp add: split_js_def split_acc_first)

lemma split_js_no_sep: "sep \<notin> set p \<Longrightarrow> split_js sep p = [p]"
  by (simp add: split_js_def split_acc_no_sep)

lemma split_js_not_Nil: "split_js sep s \<noteq> []"
  by (simp add: split_js_def split_acc_not_Nil)

lemma floor_rat_numeral:
  "\<lfloor>numeral a / numeral b :: rat\<rfloor> = numeral a div numeral b"
  using floor_divide_of_int_eq [of "numeral a" "numeral b", where ?'a = rat] by simp


section \<open>The claims\<close>

text \<open>
  C10. For every app record the creation-method classifier returns one of the four
  distinct tags IA, XML, Mockup, Manual. It returns IA exactly when the record has a
  (non-empty) prompt and neither an xml nor a mockup_id; XML exactly when it has an
  xml, so also when it has a prompt as well; Mockup exactly when it has a mockup_id and
  no xml; Manual exactly when it has none of the three.
\<close>

theorem getCreationMethod_tags:
  "cm_text (getCreationMethod app) \<in> {str ''IA'', str ''XML'', str ''Mockup'', str ''Manual''}
   \<and> distinct [str ''IA'', str ''XML'', str ''Mockup'', str ''Manual'']
   \<and> (cm_text (getCreationMethod app) = str ''IA'') =
       (truthy (app_prompt app) \<and> \<not> truthy (app_xml app) \<and> \<not> truthy (app_mockup_id app))
   \<and> (cm_text (getCreationMethod app) = str ''XML'') = truthy (app_xml app)
   \<and> (cm_text (getCreationMethod app) = str ''Mockup'') =
       (\<not> truthy (app_xml app) \<and> truthy (app_mockup_id app))
   \<and> (cm_text (getCreationMethod app) = str ''Manual'') =
       (\<not> truthy (app_prompt app) \<and> \<not> truthy (app_xml app) \<and> \<not> truthy (app_mockup_id app))"
  by (simp add: getCreationMethod_def str_eq_iff)

theorem getCreationMethod_tags_witness:
  "cm_text (getCreationMethod
      \<lparr>app_id = str ''1'', app_nombre = str ''a'', app_xml = Some (str ''<x/>''),
       app_prompt = Some (str ''crea una app''), app_mockup_id = None,
       app_project_type = FLUTTER, app_user_id = str ''u''\<rparr>) = str ''XML''
   \<and> cm_text (getCreationMethod
      \<lparr>app_id = str ''2'', app_nombre = str ''b'', app_xml = None,
       app_prompt = None, app_mockup_id = None,
       app_project_type = ANGULAR, app_user_id = str ''u''\<rparr>) = str ''Manual''"
  using getCreationMethod_tags
          [of "\<lparr>app_id = str ''1'', app_nombre = str ''a'', app_xml = Some (str ''<x/>''),
               app_prompt = Some (str ''crea una app''), app_mockup_id = None,
               app_project_type = FLUTTER, app_user_id = str ''u''\<rparr>"]
        getCreationMethod_tags
          [of "\<lparr>app_id = str ''2'', app_nombre = str ''b'', app_xml = None,
               app_prompt = None, app_mockup_id = None,
               app_project_type = ANGULAR, app_user_id = str ''u''\<rparr>"]
  by (simp add: truthy_def str_Nil_iff)


text \<open>
  C2. The validator rejects a file whose declared media type is outside the allow-list
  whatever its size, rejects a file of an allowed type whose size exceeds 20 MiB, and
  accepts every other file. The allow-list names the four raster formats JPEG, PNG, GIF
  and WebP; JPEG is listed under \<^verbatim>\<open>image/jpeg\<close> and under the alias \<^verbatim>\<open>image/jpg\<close>.
  The validator is a function of the file's type and size alone and returns only its
  verdict.
\<close>

theorem validateImageFile_policy:
  fixes f :: File
  defines "allowed \<equiv> {str ''image/jpeg'', str ''image/png'', str ''image/gif'',
                       str ''image/webp''} \<union> {str ''image/jpg''}"
  shows "(file_type f \<notin> allowed \<longrightarrow>
            (\<forall>n. validateImageFile (f\<lparr>file_size := n\<rparr>) =
                   \<lparr>valid = False, v_error = Some msg_invalid_type\<rparr>))
       \<and> (file_type f \<in> allowed \<and> file_size f > 20 * 2 ^ 20 \<longrightarrow>
            validateImageFile f = \<lparr>valid = False, v_error = Some msg_too_large\<rparr>)
       \<and> (file_type f \<in> allowed \<and> file_size f \<le> 20 * 2 ^ 20 \<longrightarrow>
            validateImageFile f = \<lparr>valid = True, v_error = None\<rparr>)"
proof -
  have types: "set validTypes = allowed"
    by (auto simp: validTypes_def allowed_def)
  have size: "maxSize = 20 * 2 ^ 20"
    by (simp add: maxSize_def)
  show ?thesis
    unfolding types [symmetric] size [symmetric]
    by (simp add: validateImageFile_def)
qed

theorem validateImageFile_policy_witness:
  "validateImageFile \<lparr>file_name = str ''a.bmp'', file_type = str ''image/bmp'', file_size = 10\<rparr>
     = \<lparr>valid = False, v_error = Some msg_invalid_type\<rparr>
   \<and> validateImageFile \<lparr>file_name = str ''a.png'', file_type = str ''image/png'',
                          file_size = 20971521\<rparr>
     = \<lparr>valid = False, v_error = Some msg_too_large\<rparr>
   \<and> validateImageFile \<lparr>file_name = str ''a.png'', file_type = str ''image/png'',
                          file_size = 20971520\<rparr>
     = \<lparr>valid = True, v_error = None\<rparr>
   \<and> validateImageFile \<lparr>file_name = str ''a.jpg'', file_type = str ''image/jpg'',
                          file_size = 10\<rparr>
     = \<lparr>valid = True, v_error = None\<rparr>"
  using validateImageFile_policy
          [of "\<lparr>file_name = str ''a.bmp'', file_type = str ''image/bmp'', file_size = 10\<rparr>"]
        validateImageFile_policy
          [of "\<lparr>file_name = str ''a.png'', file_type = str ''image/png'',
                file_size = 20971521\<rparr>"]
        validateImageFile_policy
          [of "\<lparr>file_name = str ''a.png'', file_type = str ''image/png'',
                file_size = 20971520\<rparr>"]
        validateImageFile_policy
          [of "\<lparr>file_name = str ''a.jpg'', file_type = str ''image/jpg'', file_size = 10\<rparr>"]
  by (simp add: str_eq_iff)

subsection \<open>The dimensions of the compressed image\<close>











text \<open>\<^verbatim>\<open>getImageInfo\<close> returns normally on every string, with the rounded size.\<close>

lemma getImageInfo_size:
  "\<exists>tag. getImageInfo s =
     Some \<lparr>sizeKB = round ((of_nat (length s) * 3 / 4) / 1024 :: rat), format = tag\<rparr>"
proof (cases "split_js semicolon s")
  case Nil
  then show ?thesis
    by (simp add: split_js_not_Nil)
next
  case (Cons p ps)
  then show ?thesis
    by (simp add: getImageInfo_def Let_def index_def Math_round_def round_def)
qed

text \<open>
  C8. For an encoded image string, that is a string whose prefix before the first
  \<open>;\<close> is a tag \<open>pre/sub\<close> with a non-empty subtype, \<^verbatim>\<open>getImageInfo\<close> returns normally,
  its \<open>sizeKB\<close> is three quarters of the string's length, divided by 1024 and rounded,
  and its \<open>format\<close> is the subtype.
\<close>

theorem getImageInfo_report:
  assumes "s = pre @ slash # sub @ semicolon # rest"
    and "semicolon \<notin> set pre" and "slash \<notin> set pre"
    and "semicolon \<notin> set sub" and "slash \<notin> set sub" and "sub \<noteq> []"
  shows "getImageInfo s =
           Some \<lparr>sizeKB = round ((of_nat (length s) * 3 / 4) / 1024 :: rat), format = sub\<rparr>"
proof -
  have neq: "slash \<noteq> semicolon"
    by (simp add: slash_def semicolon_def)
  have "semicolon \<notin> set (pre @ slash # sub)"
    using assms(2,4) neq by auto
  then have "split_js semicolon ((pre @ slash # sub) @ semicolon # rest)
      = (pre @ slash # sub) # split_js semicolon rest"
    by (rule split_js_first)
  then have first: "split_js semicolon s = (pre @ slash # sub) # split_js semicolon rest"
    using assms(1) by simp
  have second: "split_js slash (pre @ slash # sub) = [pre, sub]"
    using assms(3,5) by (simp add: split_js_first split_js_no_sep)
  show ?thesis
    using assms(6)
    by (simp add: getImageInfo_def Let_def first second index_def or_else_def
        Math_round_def round_def)
qed

theorem getImageInfo_report_witness:
  "getImageInfo (str ''data:image/jpeg;base64,/9j/4AAQSkZJRgABAQAAAQABAAD/2wBD'')
     = Some \<lparr>sizeKB = 0, format = str ''jpeg''\<rparr>
   \<and> getImageInfo (str ''data:image/jpeg;base64,'' @ replicate 2708 0x41)
     = Some \<lparr>sizeKB = 2, format = str ''jpeg''\<rparr>"
proof -
  have s1: "str ''data:image/jpeg;base64,/9j/4AAQSkZJRgABAQAAAQABAAD/2wBD''
      = str ''data:image'' @ slash # str ''jpeg'' @ semicolon
          # str ''base64,/9j/4AAQSkZJRgABAQAAAQABAAD/2wBD''"
    by (simp add: str_def slash_def semicolon_def)
  have s2: "str ''data:image/jpeg;base64,'' @ replicate 2708 0x41
      = str ''data:image'' @ slash # str ''jpeg'' @ semicolon
          # (str ''base64,'' @ replicate 2708 0x41)"
    by (simp add: str_def slash_def semicolon_def)
  have side: "semicolon \<notin> set (str ''data:image'')" "slash \<notin> set (str ''data:image'')"
    "semicolon \<notin> set (str ''jpeg'')" "slash \<notin> set (str ''jpeg'')" "str ''jpeg'' \<noteq> []"
    by (simp_all add: str_def slash_def semicolon_def)
  show ?thesis
    using getImageInfo_report [OF s1 side] getImageInfo_report [OF s2 side]
    by (simp add: round_def length_str floor_rat_numeral)
qed

lemma length_trim_le: "length (trim s) \<le> length s"
  unfolding trim_def
  by (metis length_rev length_dropWhile_le le_trans)

lemma trim_abc: "trim (str ''abc       '') = str ''abc''"
  by (simp add: trim_def str_def isWhiteSpace_def)

text \<open>
  C3, as stated, fails: the prompt \<^verbatim>\<open>"abc"\<close> followed by seven spaces has three
  characters after trimming, yet it is submitted: both remote calls are made and no
  validation error is set. The length test of the source is on the prompt as typed.
\<close>

theorem handleSubmit_accepts_padded_prompt:
  "length (trim (str ''abc       '')) < 10
   \<and> requests (snd (handleSubmit (example_api (Reply 200 example_blob)) example_browser
        (example_prompt_page (str ''abc       ''))))
     = [FromPrompt \<lparr>fp_prompt = str ''abc       '', fp_nombre = Some [],
                     fp_project_type = FLUTTER\<rparr>, Generate (str ''42'')]
   \<and> p_error (fst (handleSubmit (example_api (Reply 200 example_blob)) example_browser
        (example_prompt_page (str ''abc       '')))) = None"
  by (simp add: handleSubmit_def handleSubmit_begin_def createFromPrompt_def
      generateProject_def axios_post_def no_effects_def sent_only_def example_api_def
      example_prompt_page_def example_browser_def example_blob_def trim_abc length_str Let_def str_Nil_iff)

lemma handleSubmit_sends:
  assumes "trim (cfp_prompt (p_formData st)) \<noteq> []"
    and "10 \<le> length (cfp_prompt (p_formData st))"
    and "currentUser api = Some u"
  shows "\<exists>rest. requests (snd (handleSubmit api browser st)) =
           FromPrompt \<lparr>fp_prompt = cfp_prompt (p_formData st),
                        fp_nombre = cfp_nombre (p_formData st),
                        fp_project_type =
                          (case cfp_project_type (p_formData st) of
                             None \<Rightarrow> FLUTTER | Some t \<Rightarrow> t)\<rparr> # rest"
  using assms
  by (simp add: handleSubmit_def createFromPrompt_def generateProject_def sent_only_def
      Let_def split: sum.splits)

text \<open>
  C3, amended. A submission is rejected with the message that the description is
  required, and nothing is sent, when the prompt is blank after trimming; it is rejected
  with the message about ten characters, and nothing is sent, when the prompt is not
  blank but its length as typed is below 10; otherwise it is accepted and, for a signed-in
  user, the create request is sent first. In particular a prompt of at least 10
  characters after trimming is accepted.
\<close>

theorem handleSubmit_validation:
  fixes st :: PromptPage
  defines "entered \<equiv> cfp_prompt (p_formData st)"
  defines "body \<equiv> \<lparr>fp_prompt = cfp_prompt (p_formData st),
                      fp_nombre = cfp_nombre (p_formData st),
                      fp_project_type =
                        (case cfp_project_type (p_formData st) of
                           None \<Rightarrow> FLUTTER | Some t \<Rightarrow> t)\<rparr>"
  shows "(trim entered = [] \<longrightarrow>
            handleSubmit api browser st = (st\<lparr>p_error := Some msg_prompt_required\<rparr>, no_effects))
       \<and> (trim entered \<noteq> [] \<and> length entered < 10 \<longrightarrow>
            handleSubmit api browser st = (st\<lparr>p_error := Some msg_prompt_short\<rparr>, no_effects))
       \<and> (trim entered \<noteq> [] \<and> 10 \<le> length entered \<and> currentUser api \<noteq> None \<longrightarrow>
            (\<exists>rest. requests (snd (handleSubmit api browser st)) = FromPrompt body # rest))
       \<and> (10 \<le> length (trim entered) \<and> currentUser api \<noteq> None \<longrightarrow>
            (\<exists>rest. requests (snd (handleSubmit api browser st)) = FromPrompt body # rest))"
proof (intro conjI impI)
  assume "trim entered = []"
  then show "handleSubmit api browser st = (st\<lparr>p_error := Some msg_prompt_required\<rparr>, no_effects)"
    by (simp add: handleSubmit_def entered_def)
next
  assume "trim entered \<noteq> [] \<and> length entered < 10"
  then show "handleSubmit api browser st = (st\<lparr>p_error := Some msg_prompt_short\<rparr>, no_effects)"
    by (simp add: handleSubmit_def entered_def)
next
  assume "trim entered \<noteq> [] \<and> 10 \<le> length entered \<and> currentUser api \<noteq> None"
  then show "\<exists>rest. requests (snd (handleSubmit api browser st)) = FromPrompt body # rest"
    unfolding entered_def body_def by (auto intro: handleSubmit_sends)
next
  assume long: "10 \<le> length (trim entered) \<and> currentUser api \<noteq> None"
  then have "trim entered \<noteq> []"
    by auto
  moreover have "10 \<le> length entered"
    using long length_trim_le [of entered] by linarith
  ultimately show "\<exists>rest. requests (snd (handleSubmit api browser st)) = FromPrompt body # rest"
    using long unfolding entered_def body_def by (auto intro: handleSubmit_sends)
qed

lemma trim_blank: "trim (str ''   '') = []"
  by (simp add: trim_def str_def isWhiteSpace_def)

lemma trim_short: "trim (str ''una app'') = str ''una app''"
  by (simp add: trim_def str_def isWhiteSpace_def)

lemma trim_gym: "trim (str ''crea una app de gimnasio y fitness'')
  = str ''crea una app de gimnasio y fitness''"
  by (simp add: trim_def str_def isWhiteSpace_def)

theorem handleSubmit_validation_witness:
  "handleSubmit (example_api (Reply 200 example_blob)) example_browser
      (example_prompt_page (str ''   ''))
     = ((example_prompt_page (str ''   ''))\<lparr>p_error := Some msg_prompt_required\<rparr>, no_effects)
   \<and> handleSubmit (example_api (Reply 200 example_blob)) example_browser
      (example_prompt_page (str ''una app''))
     = ((example_prompt_page (str ''una app''))\<lparr>p_error := Some msg_prompt_short\<rparr>, no_effects)
   \<and> (\<exists>rest. requests (snd (handleSubmit (example_api (Reply 200 example_blob)) example_browser
        (example_prompt_page (str ''crea una app de gimnasio y fitness''))))
       = FromPrompt \<lparr>fp_prompt = str ''crea una app de gimnasio y fitness'',
                      fp_nombre = Some [], fp_project_type = FLUTTER\<rparr> # rest)"
  using handleSubmit_validation [of "example_prompt_page (str ''   '')"
          "example_api (Reply 200 example_blob)" example_browser]
        handleSubmit_validation [of "example_prompt_page (str ''una app'')"
          "example_api (Reply 200 example_blob)" example_browser]
        handleSubmit_validation [of "example_prompt_page (str ''crea una app de gimnasio y fitness'')"
          "example_api (Reply 200 example_blob)" example_browser]
  by (simp add: example_prompt_page_def example_api_def trim_blank trim_short trim_gym
      length_str str_Nil_iff)


subsection \<open>The image workflow stops at the first failing step\<close>

lemma analyzeImageForProject_sent:
  "snd (analyzeImageForProject backend encoded t) = [AnalyzeImage encoded t]"
  by (simp add: analyzeImageForProject_def)

lemma analysis_failure:
  assumes "fst (analyzeImageForProject backend encoded t) = a"
    and "\<not> (ia_success a \<and> truthy (ia_description a))"
  shows "analyzeImageAndGenerateProject backend browser encoded t name =
           (\<lparr>pg_success = False, pg_downloadUrl = None,
             pg_error = Some (or_else (ia_error a) (str ''Error analizando imagen''))\<rparr>,
            [AnalyzeImage encoded t])"
proof -
  have "analyzeImageForProject backend encoded t = (a, [AnalyzeImage encoded t])"
    using assms(1) analyzeImageForProject_sent [of backend encoded t]
    by (cases "analyzeImageForProject backend encoded t") simp
  then show ?thesis
    using assms(2)
    by (auto simp: analyzeImageAndGenerateProject_def truthy_def split: option.splits)
qed

lemma analysis_success:
  assumes "fst (analyzeImageForProject backend encoded t) = a"
    and "ia_success a" and "ia_description a = Some d" and "d \<noteq> []"
  shows "analyzeImageAndGenerateProject backend browser encoded t name =
           (case create_step backend \<lparr>fp_prompt = d, fp_nombre = name, fp_project_type = t\<rparr> of
              Inl e \<Rightarrow> (generation_failed e,
                         [AnalyzeImage encoded t,
                          FromPrompt \<lparr>fp_prompt = d, fp_nombre = name, fp_project_type = t\<rparr>])
            | Inr createdApp \<Rightarrow>
                (generate_step backend browser (created_id createdApp),
                 [AnalyzeImage encoded t,
                  FromPrompt \<lparr>fp_prompt = d, fp_nombre = name, fp_project_type = t\<rparr>,
                  Generate (created_id createdApp)]))"
proof -
  have "analyzeImageForProject backend encoded t = (a, [AnalyzeImage encoded t])"
    using assms(1) analyzeImageForProject_sent [of backend encoded t]
    by (cases "analyzeImageForProject backend encoded t") simp
  then show ?thesis
    using assms(2-4)
    by (simp add: analyzeImageAndGenerateProject_def generateProjectFromDescription_def
        Let_def split: sum.splits)
qed

lemma page_failure:
  assumes "imageFile (formData st) = Some file"
    and "trim (projectName (formData st)) \<noteq> []"
    and "fileToBase64 browser file True = Inr encoded"
    and "analyzeImageAndGenerateProject backend browser encoded (projectType (formData st))
           (Some (projectName (formData st))) = (result, sent)"
    and "\<not> pg_success result"
  shows "handleGenerateProject browser backend st =
           (st\<lparr>isGenerating := False,
               error := or_else (pg_error result) (str ''Error generando proyecto''),
               success := []\<rparr>, sent_only sent)"
  using assms
  by (simp add: handleGenerateProject_def handleGenerateProject_begin_def Let_def
      split: option.splits)


lemma or_else_not_Nil: "d \<noteq> [] \<Longrightarrow> or_else v d \<noteq> []"
  by (simp add: or_else_def split: option.splits)

lemma or_else_Some: "m \<noteq> [] \<Longrightarrow> or_else (Some m) d = m"
  by (simp add: or_else_def)

lemma trim_demo: "trim (str ''demo'') = str ''demo''"
  by (simp add: trim_def str_def isWhiteSpace_def)

lemma example_canvas:
  "canvas_size 1024 \<lparr>img_width = 5000, img_height = 3000\<rparr> = (1024, 614)"
  by (simp add: canvas_size_def scaled_def canvas_dimension_def toUnsignedLong_def Let_def
      floor_rat_numeral)

lemma example_encoded:
  "fileToBase64 example_browser example_file True = Inr (str ''data:image/jpeg;base64,/9j/4AAQ'')"
  by (simp add: fileToBase64_def compressImage_def canvas_toDataURL_def example_canvas
      example_browser_def example_file_def str_def)

lemma failing_analysis_result:
  "fst (analyzeImageForProject (failing_analysis X) encoded t)
     = \<lparr>ia_success = False, ia_description = None, ia_error = Some X\<rparr>"
  by (simp add: analyzeImageForProject_def failing_analysis_def ok_def)

text \<open>
  C4, as stated, fails for the empty message: when the analysis returns
  \<^verbatim>\<open>{success: false, error: ""}\<close> the workflow shows \<^verbatim>\<open>Error analizando imagen\<close>, the
  fallback of \<^verbatim>\<open>analysisResult.error || ...\<close>, not the empty string.
\<close>

theorem handleGenerateProject_empty_error:
  "fst (analyzeImageForProject (failing_analysis [])
          (str ''data:image/jpeg;base64,/9j/4AAQ'') FLUTTER)
     = \<lparr>ia_success = False, ia_description = None, ia_error = Some []\<rparr>
   \<and> error (fst (handleGenerateProject example_browser (failing_analysis [])
                   example_image_page)) = str ''Error analizando imagen''
   \<and> str ''Error analizando imagen'' \<noteq> []"
  by (simp add: failing_analysis_result handleGenerateProject_def
      handleGenerateProject_begin_def example_encoded analyzeImageAndGenerateProject_def
      analyzeImageForProject_def failing_analysis_def ok_def example_image_page_def
      trim_demo str_Nil_iff or_else_def Let_def)

text \<open>
  C4, amended. In the generate action of the image workflow, with an image selected and
  a name entered: if the analysis returns \<^verbatim>\<open>{success: false, error: X}\<close> with \<open>X\<close> not
  empty, the screen shows \<open>X\<close> and the only request sent is the analysis; and a failure
  at any step ends the run there with that step's message, no later request and no
  download: a failed compression sends nothing, a failed analysis (with the fallback
  message when it gives none) sends only the analysis, a failed creation sends no
  generate request, a failed generation triggers no download.
\<close>

theorem handleGenerateProject_aborts:
  fixes st :: ImagePage
  defines "t \<equiv> projectType (formData st)"
  defines "name \<equiv> projectName (formData st)"
  defines "failed \<equiv> \<lambda>msg sent.
             (st\<lparr>isGenerating := False, error := msg, success := []\<rparr>, sent_only sent)"
  assumes chosen: "imageFile (formData st) = Some file"
    and named: "trim (projectName (formData st)) \<noteq> []"
  shows "(\<forall>encoded d X.
            fileToBase64 browser file True = Inr encoded
            \<and> fst (analyzeImageForProject backend encoded t)
                = \<lparr>ia_success = False, ia_description = d, ia_error = Some X\<rparr>
            \<and> X \<noteq> [] \<longrightarrow>
            handleGenerateProject browser backend st = failed X [AnalyzeImage encoded t])
       \<and> (\<forall>e. fileToBase64 browser file True = Inl e \<longrightarrow>
            handleGenerateProject browser backend st
              = failed (catch_message e (str ''Error generando proyecto'')) [])
       \<and> (\<forall>encoded a.
            fileToBase64 browser file True = Inr encoded
            \<and> fst (analyzeImageForProject backend encoded t) = a
            \<and> \<not> (ia_success a \<and> truthy (ia_description a)) \<longrightarrow>
            handleGenerateProject browser backend st
              = failed (or_else (ia_error a) (str ''Error analizando imagen''))
                  [AnalyzeImage encoded t])
       \<and> (\<forall>encoded a d e.
            fileToBase64 browser file True = Inr encoded
            \<and> fst (analyzeImageForProject backend encoded t) = a
            \<and> ia_success a \<and> ia_description a = Some d \<and> d \<noteq> []
            \<and> create_step backend \<lparr>fp_prompt = d, fp_nombre = Some name, fp_project_type = t\<rparr>
                = Inl e \<longrightarrow>
            handleGenerateProject browser backend st
              = failed (or_else (Some (catch_message e (str ''Error desconocido'')))
                          (str ''Error generando proyecto''))
                  [AnalyzeImage encoded t,
                   FromPrompt \<lparr>fp_prompt = d, fp_nombre = Some name, fp_project_type = t\<rparr>])
       \<and> (\<forall>encoded a d created.
            fileToBase64 browser file True = Inr encoded
            \<and> fst (analyzeImageForProject backend encoded t) = a
            \<and> ia_success a \<and> ia_description a = Some d \<and> d \<noteq> []
            \<and> create_step backend \<lparr>fp_prompt = d, fp_nombre = Some name, fp_project_type = t\<rparr>
                = Inr created
            \<and> \<not> pg_success (generate_step backend browser (created_id created)) \<longrightarrow>
            handleGenerateProject browser backend st
              = failed (or_else (pg_error (generate_step backend browser (created_id created)))
                          (str ''Error generando proyecto''))
                  [AnalyzeImage encoded t,
                   FromPrompt \<lparr>fp_prompt = d, fp_nombre = Some name, fp_project_type = t\<rparr>,
                   Generate (created_id created)])"
proof (intro conjI allI impI)
  fix e
  assume "fileToBase64 browser file True = Inl e"
  then show "handleGenerateProject browser backend st
      = failed (catch_message e (str ''Error generando proyecto'')) []"
    using chosen named
    by (simp add: handleGenerateProject_def handleGenerateProject_begin_def failed_def
        no_effects_def sent_only_def Let_def)
next
  fix encoded a
  assume h: "fileToBase64 browser file True = Inr encoded
    \<and> fst (analyzeImageForProject backend encoded t) = a
    \<and> \<not> (ia_success a \<and> truthy (ia_description a))"
  have msg: "or_else (ia_error a) (str ''Error analizando imagen'') \<noteq> []"
    by (rule or_else_not_Nil) (simp add: str_Nil_iff)
  from h have "analyzeImageAndGenerateProject backend browser encoded t (Some name)
      = (\<lparr>pg_success = False, pg_downloadUrl = None,
          pg_error = Some (or_else (ia_error a) (str ''Error analizando imagen''))\<rparr>,
         [AnalyzeImage encoded t])"
    by (intro analysis_failure) simp_all
  with h show "handleGenerateProject browser backend st
      = failed (or_else (ia_error a) (str ''Error analizando imagen''))
          [AnalyzeImage encoded t]"
    using page_failure [OF chosen named, of browser encoded backend] msg
    by (simp add: failed_def t_def name_def or_else_Some)
next
  fix encoded d X
  assume h: "fileToBase64 browser file True = Inr encoded
    \<and> fst (analyzeImageForProject backend encoded t)
        = \<lparr>ia_success = False, ia_description = d, ia_error = Some X\<rparr>
    \<and> X \<noteq> []"
  define a where "a = \<lparr>ia_success = False, ia_description = d, ia_error = Some X\<rparr>"
  from h have "analyzeImageAndGenerateProject backend browser encoded t (Some name)
      = (\<lparr>pg_success = False, pg_downloadUrl = None,
          pg_error = Some (or_else (ia_error a) (str ''Error analizando imagen''))\<rparr>,
         [AnalyzeImage encoded t])"
    by (intro analysis_failure) (simp_all add: a_def)
  with h show "handleGenerateProject browser backend st = failed X [AnalyzeImage encoded t]"
    using page_failure [OF chosen named, of browser encoded backend]
    by (simp add: failed_def t_def name_def a_def or_else_Some)
next
  fix encoded a d e
  assume h: "fileToBase64 browser file True = Inr encoded
    \<and> fst (analyzeImageForProject backend encoded t) = a
    \<and> ia_success a \<and> ia_description a = Some d \<and> d \<noteq> []
    \<and> create_step backend \<lparr>fp_prompt = d, fp_nombre = Some name, fp_project_type = t\<rparr> = Inl e"
  then have "analyzeImageAndGenerateProject backend browser encoded t (Some name)
      = (generation_failed e,
         [AnalyzeImage encoded t,
          FromPrompt \<lparr>fp_prompt = d, fp_nombre = Some name, fp_project_type = t\<rparr>])"
    using analysis_success [of backend encoded t a d browser "Some name"] by simp
  with h show "handleGenerateProject browser backend st
      = failed (or_else (Some (catch_message e (str ''Error desconocido'')))
                  (str ''Error generando proyecto''))
          [AnalyzeImage encoded t,
           FromPrompt \<lparr>fp_prompt = d, fp_nombre = Some name, fp_project_type = t\<rparr>]"
    using page_failure [OF chosen named, of browser encoded backend]
    by (simp add: failed_def t_def name_def generation_failed_def)
next
  fix encoded a d created
  assume h: "fileToBase64 browser file True = Inr encoded
    \<and> fst (analyzeImageForProject backend encoded t) = a
    \<and> ia_success a \<and> ia_description a = Some d \<and> d \<noteq> []
    \<and> create_step backend \<lparr>fp_prompt = d, fp_nombre = Some name, fp_project_type = t\<rparr>
        = Inr created
    \<and> \<not> pg_success (generate_step backend browser (created_id created))"
  then have "analyzeImageAndGenerateProject backend browser encoded t (Some name)
      = (generate_step backend browser (created_id created),
         [AnalyzeImage encoded t,
          FromPrompt \<lparr>fp_prompt = d, fp_nombre = Some name, fp_project_type = t\<rparr>,
          Generate (created_id created)])"
    using analysis_success [of backend encoded t a d browser "Some name"] by simp
  with h show "handleGenerateProject browser backend st
      = failed (or_else (pg_error (generate_step backend browser (created_id created)))
                  (str ''Error generando proyecto''))
          [AnalyzeImage encoded t,
           FromPrompt \<lparr>fp_prompt = d, fp_nombre = Some name, fp_project_type = t\<rparr>,
           Generate (created_id created)]"
    using page_failure [OF chosen named, of browser encoded backend]
    by (simp add: failed_def t_def name_def)
qed

theorem handleGenerateProject_aborts_witness:
  "handleGenerateProject example_browser (failing_analysis (str ''X'')) example_image_page
     = (example_image_page\<lparr>isGenerating := False, error := str ''X'', success := []\<rparr>,
        sent_only [AnalyzeImage (str ''data:image/jpeg;base64,/9j/4AAQ'') FLUTTER])
   \<and> handleGenerateProject (example_browser\<lparr>decode := (\<lambda>f. None)\<rparr>) example_backend
       example_image_page
     = (example_image_page\<lparr>isGenerating := False, error := msg_load_failed, success := []\<rparr>,
        sent_only [])
   \<and> handleGenerateProject example_browser failing_creation example_image_page
     = (example_image_page\<lparr>isGenerating := False, error := str ''Failed to fetch'',
                            success := []\<rparr>,
        sent_only [AnalyzeImage (str ''data:image/jpeg;base64,/9j/4AAQ'') FLUTTER,
                   FromPrompt \<lparr>fp_prompt = str ''A login screen'',
                                fp_nombre = Some (str ''demo''),
                                fp_project_type = FLUTTER\<rparr>])
   \<and> handleGenerateProject example_browser failing_generation example_image_page
     = (example_image_page\<lparr>isGenerating := False, error := str ''fail'', success := []\<rparr>,
        sent_only [AnalyzeImage (str ''data:image/jpeg;base64,/9j/4AAQ'') FLUTTER,
                   FromPrompt \<lparr>fp_prompt = str ''A login screen'',
                                fp_nombre = Some (str ''demo''),
                                fp_project_type = FLUTTER\<rparr>,
                   Generate (str ''42'')])"
proof -
  have chosen: "imageFile (formData example_image_page) = Some example_file"
    and named: "trim (projectName (formData example_image_page)) \<noteq> []"
    by (simp_all add: example_image_page_def trim_demo str_Nil_iff)
  have broken: "fileToBase64 (example_browser\<lparr>decode := (\<lambda>f. None)\<rparr>) example_file True
      = Inl (Error msg_load_failed None)"
    by (simp add: fileToBase64_def compressImage_def example_browser_def example_file_def
        str_def)
  have analysed: "fst (analyzeImageForProject failing_creation encoded FLUTTER)
        = \<lparr>ia_success = True, ia_description = Some (str ''A login screen''), ia_error = None\<rparr>"
      "fst (analyzeImageForProject failing_generation encoded FLUTTER)
        = \<lparr>ia_success = True, ia_description = Some (str ''A login screen''), ia_error = None\<rparr>"
    for encoded
    by (simp_all add: analyzeImageForProject_def failing_creation_def failing_generation_def
        example_backend_def ok_def)
  have created: "create_step failing_creation body = Inl (Error (str ''Failed to fetch'') None)"
      "create_step failing_generation body = Inr \<lparr>created_id = str ''42''\<rparr>"
    for body
    by (simp_all add: create_step_def failing_creation_def failing_generation_def
        example_backend_def ok_def)
  have generated: "generate_step failing_generation example_browser ident
      = \<lparr>pg_success = False, pg_downloadUrl = None, pg_error = Some (str ''fail'')\<rparr>"
    for ident
    by (simp add: generate_step_def failing_generation_def example_backend_def ok_def
        is_zip_def or_else_def str_Nil_iff) (simp add: str_def)
  have page: "projectName (formData example_image_page) = str ''demo''"
      "projectType (formData example_image_page) = FLUTTER"
    by (simp_all add: example_image_page_def)
  have first: "handleGenerateProject example_browser (failing_analysis (str ''X''))
        example_image_page
      = (example_image_page\<lparr>isGenerating := False, error := str ''X'', success := []\<rparr>,
         sent_only [AnalyzeImage (str ''data:image/jpeg;base64,/9j/4AAQ'') FLUTTER])"
    using handleGenerateProject_aborts [OF chosen named, of example_browser
            "failing_analysis (str ''X'')"]
          example_encoded failing_analysis_result
    by (simp add: page str_Nil_iff)
  have second: "handleGenerateProject (example_browser\<lparr>decode := (\<lambda>f. None)\<rparr>)
        example_backend example_image_page
      = (example_image_page\<lparr>isGenerating := False, error := msg_load_failed, success := []\<rparr>,
         sent_only [])"
    using handleGenerateProject_aborts [OF chosen named,
            of "example_browser\<lparr>decode := (\<lambda>f. None)\<rparr>" example_backend]
          broken
    by (simp add: catch_message_def)
  have third: "handleGenerateProject example_browser failing_creation example_image_page
      = (example_image_page\<lparr>isGenerating := False, error := str ''Failed to fetch'',
                             success := []\<rparr>,
         sent_only [AnalyzeImage (str ''data:image/jpeg;base64,/9j/4AAQ'') FLUTTER,
                    FromPrompt \<lparr>fp_prompt = str ''A login screen'',
                                 fp_nombre = Some (str ''demo''),
                                 fp_project_type = FLUTTER\<rparr>])"
    using handleGenerateProject_aborts [OF chosen named, of example_browser failing_creation]
          example_encoded analysed created
    by (simp add: page str_Nil_iff catch_message_def or_else_def)
  have fourth: "handleGenerateProject example_browser failing_generation example_image_page
      = (example_image_page\<lparr>isGenerating := False, error := str ''fail'', success := []\<rparr>,
         sent_only [AnalyzeImage (str ''data:image/jpeg;base64,/9j/4AAQ'') FLUTTER,
                    FromPrompt \<lparr>fp_prompt = str ''A login screen'',
                                 fp_nombre = Some (str ''demo''),
                                 fp_project_type = FLUTTER\<rparr>,
                    Generate (str ''42'')])"
    using handleGenerateProject_aborts [OF chosen named, of example_browser failing_generation]
          example_encoded analysed created generated
    by (simp add: page str_Nil_iff or_else_def)
  show ?thesis
    using first second third fourth by simp
qed

subsection \<open>A generate response that is not an archive\<close>

text \<open>The fetch client takes the content type as decisive: without a zip content type
  the generation has failed.\<close>

lemma generate_step_requires_zip:
  assumes "\<And>r. generate backend ident = Inr r \<Longrightarrow> \<not> is_zip r"
  shows "\<not> pg_success (generate_step backend browser ident)"
  using assms
  by (auto simp: generate_step_def generation_failed_def split: sum.splits)

text \<open>
  C5. Every caller of the generate request treats a response whose content type is not
  an archive as a failed generation. The axios client does not: in the prompt workflow a
  reply with status 200, content type \<^verbatim>\<open>application/json\<close> and the body
  \<^verbatim>\<open>{"message":"fail"}\<close> is downloaded as \<^verbatim>\<open>GymApp-flutter.zip\<close> and the screen shows
  success.
\<close>

theorem handleSubmit_downloads_error_body:
  "\<not> includes_js (blob_type error_body) (str ''application/zip'')
   \<and> handleSubmit (example_api (Reply 200 error_body)) example_browser
       (example_prompt_page (str ''crea una app de gimnasio y fitness''))
     = ((example_prompt_page (str ''crea una app de gimnasio y fitness''))\<lparr>p_success := True\<rparr>,
        \<lparr>requests = [FromPrompt \<lparr>fp_prompt = str ''crea una app de gimnasio y fitness'',
                                  fp_nombre = Some [], fp_project_type = FLUTTER\<rparr>,
                     Generate (str ''42'')],
         downloads = [\<lparr>href = str ''blob:http://localhost/application/json'',
                       download = str ''GymApp-flutter.zip''\<rparr>],
         revoked = [str ''blob:http://localhost/application/json'']\<rparr>)"
  by (simp add: handleSubmit_def handleSubmit_begin_def createFromPrompt_def
      generateProject_def axios_post_def no_effects_def sent_only_def example_api_def
      example_prompt_page_def example_browser_def error_body_def trim_gym length_str
      str_Nil_iff or_else_def Let_def) (simp add: str_def)

subsection \<open>The name of the download\<close>












subsection \<open>A failed analysis\<close>

lemma example_analysed:
  "handleAnalyzeImage example_browser example_backend example_image_page
     = (example_image_page\<lparr>analysisResult := str ''A login screen'', success := msg_analyzed\<rparr>,
        [AnalyzeImage (str ''data:image/jpeg;base64,/9j/4AAQ'') FLUTTER])"
  by (simp add: handleAnalyzeImage_def handleAnalyzeImage_begin_def example_encoded
      analyzeImageForProject_def example_backend_def ok_def example_image_page_def
      str_Nil_iff Let_def)

text \<open>
  C6, as stated, fails for the analysis description: on a screen that holds the
  description of an earlier analysis, a second analysis that fails with \<open>X\<close> shows \<open>X\<close>
  and leaves the description empty. The handler clears it before it calls the server.
\<close>

theorem handleAnalyzeImage_clears_description:
  "analysisResult (fst (handleAnalyzeImage example_browser example_backend example_image_page))
     = str ''A login screen''
   \<and> error (fst (handleAnalyzeImage example_browser (failing_analysis (str ''X''))
        (fst (handleAnalyzeImage example_browser example_backend example_image_page))))
     = str ''X''
   \<and> analysisResult (fst (handleAnalyzeImage example_browser (failing_analysis (str ''X''))
        (fst (handleAnalyzeImage example_browser example_backend example_image_page))))
     = []
   \<and> str ''A login screen'' \<noteq> []"
  by (simp add: example_analysed)
     (simp add: handleAnalyzeImage_def handleAnalyzeImage_begin_def example_encoded
      analyzeImageForProject_def failing_analysis_def ok_def example_image_page_def
      str_Nil_iff or_else_def Let_def)

text \<open>
  C6, amended. With an image selected, when the analyze action fails (the compression
  throws, or the analysis does not return success with a description) the screen
  differs from the one before in three fields only: the error holds the failure's
  message, the busy flag is down, and the analysis description is empty. The selected
  image, project name and type, preview, image info, success message and file input are
  as before.
\<close>

theorem handleAnalyzeImage_failure:
  assumes chosen: "imageFile (formData st) = Some file"
  shows "(\<forall>e. fileToBase64 browser file True = Inl e \<longrightarrow>
            handleAnalyzeImage browser backend st
              = (st\<lparr>isAnalyzing := False,
                    error := catch_message e (str ''Error analizando imagen''),
                    analysisResult := []\<rparr>, []))
       \<and> (\<forall>encoded a.
            fileToBase64 browser file True = Inr encoded
            \<and> fst (analyzeImageForProject backend encoded (projectType (formData st))) = a
            \<and> \<not> (ia_success a \<and> truthy (ia_description a)) \<longrightarrow>
            handleAnalyzeImage browser backend st
              = (st\<lparr>isAnalyzing := False,
                    error := or_else (ia_error a) (str ''Error analizando imagen''),
                    analysisResult := []\<rparr>,
                 [AnalyzeImage encoded (projectType (formData st))]))"
proof (intro conjI allI impI)
  fix e
  assume "fileToBase64 browser file True = Inl e"
  then show "handleAnalyzeImage browser backend st
      = (st\<lparr>isAnalyzing := False,
            error := catch_message e (str ''Error analizando imagen''),
            analysisResult := []\<rparr>, [])"
    using chosen
    by (simp add: handleAnalyzeImage_def handleAnalyzeImage_begin_def Let_def)
next
  fix encoded a
  assume h: "fileToBase64 browser file True = Inr encoded
    \<and> fst (analyzeImageForProject backend encoded (projectType (formData st))) = a
    \<and> \<not> (ia_success a \<and> truthy (ia_description a))"
  then have "analyzeImageForProject backend encoded (projectType (formData st))
      = (a, [AnalyzeImage encoded (projectType (formData st))])"
    using analyzeImageForProject_sent [of backend encoded "projectType (formData st)"]
    by (cases "analyzeImageForProject backend encoded (projectType (formData st))") simp
  with h show "handleAnalyzeImage browser backend st
      = (st\<lparr>isAnalyzing := False,
            error := or_else (ia_error a) (str ''Error analizando imagen''),
            analysisResult := []\<rparr>,
         [AnalyzeImage encoded (projectType (formData st))])"
    using chosen
    by (auto simp: handleAnalyzeImage_def handleAnalyzeImage_begin_def truthy_def Let_def
        split: option.splits)
qed

theorem handleAnalyzeImage_failure_witness:
  "handleAnalyzeImage example_browser (failing_analysis (str ''X''))
      (example_image_page\<lparr>analysisResult := str ''A login screen''\<rparr>)
     = (example_image_page\<lparr>error := str ''X''\<rparr>,
        [AnalyzeImage (str ''data:image/jpeg;base64,/9j/4AAQ'') FLUTTER])
   \<and> handleAnalyzeImage (example_browser\<lparr>decode := (\<lambda>f. None)\<rparr>) example_backend
      example_image_page
     = (example_image_page\<lparr>error := msg_load_failed\<rparr>, [])"
proof -
  have chosen: "imageFile (formData (example_image_page\<lparr>analysisResult := str ''A login screen''\<rparr>))
      = Some example_file"
    and chosen': "imageFile (formData example_image_page) = Some example_file"
    by (simp_all add: example_image_page_def)
  have broken: "fileToBase64 (example_browser\<lparr>decode := (\<lambda>f. None)\<rparr>) example_file True
      = Inl (Error msg_load_failed None)"
    by (simp add: fileToBase64_def compressImage_def example_browser_def example_file_def
        str_def)
  show ?thesis
    using handleAnalyzeImage_failure [OF chosen, of example_browser
            "failing_analysis (str ''X'')"]
          handleAnalyzeImage_failure [OF chosen',
            of "example_browser\<lparr>decode := (\<lambda>f. None)\<rparr>" example_backend]
          example_encoded failing_analysis_result broken
    by (simp add: example_image_page_def str_Nil_iff catch_message_def truthy_def
        or_else_def)
qed

subsection \<open>Disabled while in flight\<close>




end
